theory Spec2Isabelle
  imports Complex_Main "HOL-Library.Char_ord" "HOL-Library.List_Lexorder"
begin

section \<open>JavaScript values\<close>

text \<open>
  The rows handed to the ingestion service come from a CSV reader (every cell a string) or
  from a spreadsheet reader (strings, numbers, booleans and Date objects); a missing column
  reads as \<open>undefined\<close>. Strings are modelled over the code units below 256. A Date object
  is represented by the text its \<open>toISOString()\<close> produces, \<open>None\<close> for an Invalid Date,
  on which \<open>toISOString()\<close> throws a RangeError. Numbers are the finite values (as
  rationals), NaN and the two infinities; negative zero is not distinguished from zero.
\<close>

datatype jsnum = Fin rat | NaN | PosInf | NegInf

datatype jsval =
    JUndefined
  | JNull
  | JBool bool
  | JNum jsnum
  | JStr string
  | JDate "string option"

datatype error = TypeError | RangeError | DbError

text \<open>Truthiness, as used by \<open>!x\<close>, \<open>a || b\<close> and \<open>if (x)\<close>.\<close>

definition truthy :: "jsval \<Rightarrow> bool" where
  "truthy v =
     (case v of
        JUndefined \<Rightarrow> False
      | JNull \<Rightarrow> False
      | JBool b \<Rightarrow> b
      | JNum n \<Rightarrow> n \<noteq> NaN \<and> n \<noteq> Fin 0
      | JStr s \<Rightarrow> s \<noteq> []
      | JDate d \<Rightarrow> True)"

definition js_or :: "jsval \<Rightarrow> jsval \<Rightarrow> jsval" where
  "js_or a b = (if truthy a then a else b)"

text \<open>White space removed by \<open>String.prototype.trim\<close> and skipped by \<open>parseInt\<close>:
  TAB, LF, VT, FF, CR, SP and NBSP.\<close>

definition js_space :: "char \<Rightarrow> bool" where
  "js_space c = (of_char c \<in> {9, 10, 11, 12, 13, 32, 160 :: nat})"

definition trim :: "string \<Rightarrow> string" where
  "trim s = rev (dropWhile js_space (rev (dropWhile js_space s)))"

definition is_digit :: "char \<Rightarrow> bool" where
  "is_digit c = (48 \<le> (of_char c :: nat) \<and> (of_char c :: nat) \<le> 57)"

definition js_lower :: "char \<Rightarrow> char" where
  "js_lower c =
     (let n = (of_char c :: nat)
      in if (65 \<le> n \<and> n \<le> 90) \<or> (192 \<le> n \<and> n \<le> 222 \<and> n \<noteq> 215)
         then char_of (n + 32) else c)"

text \<open>\<open>s.split(c)\<close> for a one-character separator.\<close>

fun split_on :: "char \<Rightarrow> string \<Rightarrow> string list" where
  "split_on c [] = [[]]"
| "split_on c (x # xs) =
     (if x = c then [] # split_on c xs
      else (case split_on c xs of
              p # ps \<Rightarrow> (x # p) # ps
            | [] \<Rightarrow> [[x]]))"

text \<open>\<open>s.padStart(2, '0')\<close>.\<close>

definition padStart2 :: "string \<Rightarrow> string" where
  "padStart2 s = replicate (2 - length s) (CHR ''0'') @ s"

section \<open>DataCleaner\<close>

definition trimString :: "jsval \<Rightarrow> jsval" where
  "trimString v = (case v of JStr s \<Rightarrow> JStr (trim s) | _ \<Rightarrow> v)"

text \<open>
  \<open>value.replace(/^0+([0-9]+)/, '$1')\<close>: the leading zeros are taken greedily; when a digit
  follows them the group is the whole digit run and only the zeros disappear; when no digit
  follows, the matcher gives the last zero back to the group, which needs at least two
  zeros.
\<close>

definition replace_zeros_digits :: "string \<Rightarrow> string" where
  "replace_zeros_digits s =
     (let zs = takeWhile (\<lambda>c. c = CHR ''0'') s;
          rest = dropWhile (\<lambda>c. c = CHR ''0'') s
      in if zs = [] then s
         else if rest \<noteq> [] \<and> is_digit (hd rest) then rest
         else if 2 \<le> length zs then CHR ''0'' # rest
         else s)"

definition removeLeadingZeros :: "jsval \<Rightarrow> jsval" where
  "removeLeadingZeros v =
     (case v of
        JStr s \<Rightarrow> JStr (let r = replace_zeros_digits s in if r \<noteq> [] then r else s)
      | _ \<Rightarrow> v)"

text \<open>The two patterns of \<open>standardizeDate\<close>: \<open>/^\d{4}-\d{2}-\d{2}$/\<close> and
  \<open>/^\d{1,2}\/\d{1,2}\/\d{4}$/\<close>.\<close>

definition iso_shape :: "string \<Rightarrow> bool" where
  "iso_shape s =
     (length s = 10 \<and> list_all is_digit (take 4 s) \<and> take 1 (drop 4 s) = ''-''
      \<and> list_all is_digit (take 2 (drop 5 s)) \<and> take 1 (drop 7 s) = ''-''
      \<and> list_all is_digit (drop 8 s))"

definition digits_1_2 :: "string \<Rightarrow> bool" where
  "digits_1_2 p = (1 \<le> length p \<and> length p \<le> 2 \<and> list_all is_digit p)"

definition slash_shape :: "string \<Rightarrow> bool" where
  "slash_shape s =
     (case split_on (CHR ''/'') s of
        [a, b, c] \<Rightarrow> digits_1_2 a \<and> digits_1_2 b \<and> length c = 4 \<and> list_all is_digit c
      | _ \<Rightarrow> False)"

text \<open>
  \<open>standardizeDate\<close>. The parameter \<open>newDate\<close> stands for \<open>new Date(text)\<close> of the
  JavaScript engine: the ISO text of the parsed instant, \<open>None\<close> when the engine cannot
  parse the text. The result \<open>Inr None\<close> is the source's \<open>null\<close>.
\<close>

definition standardizeDate :: "(string \<Rightarrow> string option) \<Rightarrow> jsval \<Rightarrow> error + string option" where
  "standardizeDate newDate dateValue =
     (if \<not> truthy dateValue then Inr None
      else case dateValue of
        JDate d \<Rightarrow>
          (case d of
             None \<Rightarrow> Inl RangeError
           | Some isoText \<Rightarrow> Inr (Some (hd (split_on (CHR ''T'') isoText))))
      | JStr s \<Rightarrow>
          (let trimmed = trim s
           in if iso_shape trimmed then Inr (Some trimmed)
              else if slash_shape trimmed then
                (case split_on (CHR ''/'') trimmed of
                   [month, day, year] \<Rightarrow>
                     Inr (Some (year @ ''-'' @ padStart2 month @ ''-'' @ padStart2 day))
                 | _ \<Rightarrow> Inr None)
              else if slash_shape trimmed then
                (case newDate trimmed of
                   Some isoText \<Rightarrow> Inr (Some (hd (split_on (CHR ''T'') isoText)))
                 | None \<Rightarrow> Inr None)
              else Inr None)
      | _ \<Rightarrow> Inr None)"

text \<open>\<open>cleanLotCode\<close>: \<open>trimmed.replace(/^0+/, '') || '0'\<close>. Only a string has a
  \<open>replace\<close> method; on any other value the call throws a TypeError.\<close>

definition cleanLotCode :: "jsval \<Rightarrow> error + string" where
  "cleanLotCode lotCode =
     (case trimString lotCode of
        JStr trimmed \<Rightarrow>
          (let r = dropWhile (\<lambda>c. c = CHR ''0'') trimmed
           in Inr (if r \<noteq> [] then r else ''0''))
      | _ \<Rightarrow> Inl TypeError)"

definition toBoolean :: "jsval \<Rightarrow> bool \<Rightarrow> bool" where
  "toBoolean v defaultValue =
     (case v of
        JBool b \<Rightarrow> b
      | JStr s \<Rightarrow>
          (let normalized = map js_lower (trim s)
           in if normalized \<in> set [''yes'', ''y'', ''true'', ''pass'', ''1''] then True
              else if normalized \<in> set [''no'', ''n'', ''false'', ''fail'', ''0''] then False
              else defaultValue)
      | _ \<Rightarrow> defaultValue)"

text \<open>
  \<open>parseInt(value, 10)\<close>: leading white space, an optional sign, then the longest run of
  decimal digits; NaN when there is no digit. A value that is not a string is first turned
  into text (\<open>undefined\<close>, \<open>null\<close>, \<open>true\<close>, a weekday name, ...), which never starts
  with a digit. The rounding of integers beyond \<open>2^53\<close> is not modelled.
\<close>

definition digits_value :: "string \<Rightarrow> int" where
  "digits_value ds = foldl (\<lambda>a c. 10 * a + (of_char c - 48)) 0 ds"

definition parseInt10 :: "jsval \<Rightarrow> jsnum" where
  "parseInt10 v =
     (case v of
        JStr s \<Rightarrow>
          (let t = dropWhile js_space s;
               neg = (take 1 t = ''-'');
               u = (if take 1 t = ''-'' \<or> take 1 t = ''+'' then drop 1 t else t);
               ds = takeWhile is_digit u
           in if ds = [] then NaN
              else Fin (of_int ((if neg then - 1 else 1) * digits_value ds)))
      | _ \<Rightarrow> NaN)"

definition math_floor :: "jsnum \<Rightarrow> jsnum" where
  "math_floor n = (case n of Fin r \<Rightarrow> Fin (of_int \<lfloor>r\<rfloor>) | _ \<Rightarrow> n)"

definition toInteger :: "jsval \<Rightarrow> jsnum \<Rightarrow> jsnum" where
  "toInteger v defaultValue =
     (case v of
        JNum n \<Rightarrow> math_floor n
      | _ \<Rightarrow> (let parsed = parseInt10 v in if parsed = NaN then defaultValue else parsed))"

section \<open>The store\<close>

text \<open>
  The relational store of \<open>db/schema.sql\<close>. A table is the list of its rows in insertion
  order. A \<open>DATE\<close> value is the number \<open>yyyymmdd\<close>, so that the order and the equality of
  these numbers are those of the calendar. Surrogate keys of the child tables, the
  \<open>created_at\<close>, \<open>detected_date\<close> and \<open>source_updated_timestamp\<close> columns and the
  free-text \<open>description\<close> of a flag are never read by the operations below and are left
  out. A statement the store rejects (a constraint, a value that does not fit its column)
  is the error \<open>DbError\<close>; an unreachable store is not modelled.
\<close>

type_synonym date = int

record lot =
  l_id :: nat
  lot_code :: string
  production_date :: date
  is_pending_inspection :: bool
  has_data_integrity_issue :: bool
  has_date_conflict :: bool

record production_record =
  p_lot_id :: nat
  production_line_id :: string
  shift :: string
  units_planned :: int
  units_actual :: int
  downtime_minutes :: int
  has_line_issue :: bool

record quality_inspection_record =
  q_lot_id :: nat
  inspection_date :: date
  is_pass :: bool
  defect_type :: "string option"
  defect_count :: int
  inspector_id :: string

record shipping_record =
  s_lot_id :: nat
  ship_date :: date
  destination_state :: string
  carrier :: string
  qty_shipped :: int
  shipment_status :: string

record data_integrity_flag =
  f_lot_id :: nat
  flag_type :: string
  severity :: string
  is_resolved :: bool

record data_source_metadata =
  source_name :: string
  source_location :: string
  file_format :: string
  last_updated_timestamp :: int
  refresh_status :: string

record db =
  lots :: "lot list"
  production_records :: "production_record list"
  quality_inspection_records :: "quality_inspection_record list"
  shipping_records :: "shipping_record list"
  data_integrity_flags :: "data_integrity_flag list"
  data_source_metadatas :: "data_source_metadata list"
  lots_id_seq :: nat

definition empty_db :: db where
  "empty_db =
     \<lparr>lots = [], production_records = [], quality_inspection_records = [],
      shipping_records = [], data_integrity_flags = [], data_source_metadatas = [],
      lots_id_seq = 1\<rparr>"

text \<open>
  What the code uses and does not define: the date parser of the JavaScript engine, the
  text the database driver sends for a parameter that is a number, a boolean or a Date,
  and the three configured directories.
\<close>

record env =
  newDate :: "string \<Rightarrow> string option"
  prepareValue :: "jsval \<Rightarrow> string"
  productionLogsPath :: string
  qualityLogsPath :: string
  shippingLogsPath :: string

subsection \<open>Column types\<close>

definition leap_year :: "int \<Rightarrow> bool" where
  "leap_year y = (y mod 4 = 0 \<and> (y mod 400 = 0 \<or> y mod 100 \<noteq> 0))"

definition days_in_month :: "int \<Rightarrow> int \<Rightarrow> int" where
  "days_in_month y m =
     (if m = 2 then (if leap_year y then 29 else 28)
      else if m = 4 \<or> m = 6 \<or> m = 9 \<or> m = 11 then 30
      else 31)"

text \<open>
  The conversion of a text parameter to \<open>DATE\<close>. \<open>standardizeDate\<close> produces text of the
  shape \<open>dddd-dd-dd\<close>; the store rejects it when it names no day of the calendar. Text of
  any other shape (only a Date object outside the years 0000 to 9999 yields one) is taken
  as rejected.
\<close>

definition pg_date :: "string \<Rightarrow> date option" where
  "pg_date s =
     (if iso_shape s then
        (let y = digits_value (take 4 s);
             m = digits_value (take 2 (drop 5 s));
             d = digits_value (drop 8 s)
         in if 1 \<le> y \<and> 1 \<le> m \<and> m \<le> 12 \<and> 1 \<le> d \<and> d \<le> days_in_month y m
            then Some (y * 10000 + m * 100 + d) else None)
      else None)"

text \<open>A text parameter: \<open>null\<close> and \<open>undefined\<close> are sent as \<open>NULL\<close>, a string as it is,
  anything else as the text the driver makes of it.\<close>

definition pg_text :: "env \<Rightarrow> jsval \<Rightarrow> string option" where
  "pg_text e v =
     (case v of
        JUndefined \<Rightarrow> None
      | JNull \<Rightarrow> None
      | JStr s \<Rightarrow> Some s
      | _ \<Rightarrow> Some (prepareValue e v))"

text \<open>A parameter for an \<open>INTEGER\<close> column: a whole number of 32 bits.\<close>

definition pg_integer :: "jsnum \<Rightarrow> int option" where
  "pg_integer n =
     (case n of
        Fin r \<Rightarrow>
          (if of_int \<lfloor>r\<rfloor> = r \<and> - 2147483648 \<le> \<lfloor>r\<rfloor> \<and> \<lfloor>r\<rfloor> \<le> 2147483647
           then Some \<lfloor>r\<rfloor> else None)
      | _ \<Rightarrow> None)"

text \<open>\<open>VARCHAR(n) NOT NULL\<close>.\<close>

definition fits :: "nat \<Rightarrow> string option \<Rightarrow> bool" where
  "fits n t = (case t of None \<Rightarrow> False | Some s \<Rightarrow> length s \<le> n)"

subsection \<open>Lot\<close>

definition lot_ids :: "db \<Rightarrow> nat list" where
  "lot_ids d = map l_id (lots d)"

text \<open>
  \<open>Lot.create\<close>: \<open>INSERT ... ON CONFLICT (lot_code, production_date) DO UPDATE SET
  lot_code = EXCLUDED.lot_code RETURNING *\<close>. The row that is already there is returned
  unchanged; the key of the new row is drawn from the sequence before the conflict is
  detected, so the sequence advances in both cases.
\<close>

definition Lot_create :: "string \<Rightarrow> string \<Rightarrow> db \<Rightarrow> error + (lot \<times> db)" where
  "Lot_create lotCode productionDate d =
     (case pg_date productionDate of
        None \<Rightarrow> Inl DbError
      | Some pd \<Rightarrow>
          if 50 < length lotCode then Inl DbError
          else
            (let d1 = d\<lparr>lots_id_seq := lots_id_seq d + 1\<rparr>
             in case find (\<lambda>l. lot_code l = lotCode \<and> production_date l = pd) (lots d) of
                  Some l \<Rightarrow> Inr (l, d1)
                | None \<Rightarrow>
                    (let l = \<lparr>l_id = lots_id_seq d, lot_code = lotCode, production_date = pd,
                              is_pending_inspection = True, has_data_integrity_issue = False,
                              has_date_conflict = False\<rparr>
                     in Inr (l, d1\<lparr>lots := lots d @ [l]\<rparr>))))"

definition findByCompositeKey :: "string \<Rightarrow> string \<Rightarrow> db \<Rightarrow> error + lot option" where
  "findByCompositeKey lotCode productionDate d =
     (case pg_date productionDate of
        None \<Rightarrow> Inl DbError
      | Some pd \<Rightarrow> Inr (find (\<lambda>l. lot_code l = lotCode \<and> production_date l = pd) (lots d)))"

text \<open>\<open>Lot.update\<close>: the object of updates restricted to the three allowed fields.\<close>

record lot_updates =
  set_is_pending_inspection :: "bool option"
  set_has_data_integrity_issue :: "bool option"
  set_has_date_conflict :: "bool option"

definition no_updates :: lot_updates where
  "no_updates =
     \<lparr>set_is_pending_inspection = None, set_has_data_integrity_issue = None,
      set_has_date_conflict = None\<rparr>"

definition apply_updates :: "lot_updates \<Rightarrow> lot \<Rightarrow> lot" where
  "apply_updates u l =
     l\<lparr>is_pending_inspection :=
         (case set_is_pending_inspection u of None \<Rightarrow> is_pending_inspection l | Some b \<Rightarrow> b),
       has_data_integrity_issue :=
         (case set_has_data_integrity_issue u of
            None \<Rightarrow> has_data_integrity_issue l | Some b \<Rightarrow> b),
       has_date_conflict :=
         (case set_has_date_conflict u of None \<Rightarrow> has_date_conflict l | Some b \<Rightarrow> b)\<rparr>"

definition Lot_update :: "nat \<Rightarrow> lot_updates \<Rightarrow> db \<Rightarrow> db" where
  "Lot_update lotId u d =
     d\<lparr>lots := map (\<lambda>l. if l_id l = lotId then apply_updates u l else l) (lots d)\<rparr>"

subsection \<open>Child records\<close>

definition ProductionRecord_create ::
  "env \<Rightarrow> nat \<Rightarrow> jsval \<Rightarrow> jsval \<Rightarrow> jsnum \<Rightarrow> jsnum \<Rightarrow> jsnum \<Rightarrow> bool \<Rightarrow> db \<Rightarrow> error + db" where
  "ProductionRecord_create e lotId productionLineId shiftId unitsPlanned unitsActual
     downtimeMinutes hasLineIssue d =
     (let line = pg_text e productionLineId;
          sh = pg_text e shiftId;
          planned = pg_integer unitsPlanned;
          actual = pg_integer unitsActual;
          downtime = pg_integer downtimeMinutes
      in if lotId \<in> set (lot_ids d) \<and> fits 20 line \<and> fits 20 sh
            \<and> planned \<noteq> None \<and> actual \<noteq> None \<and> downtime \<noteq> None
            \<and> 0 \<le> the planned \<and> 0 \<le> the actual \<and> 0 \<le> the downtime
         then Inr (d\<lparr>production_records := production_records d @
                [\<lparr>p_lot_id = lotId, production_line_id = the line, shift = the sh,
                  units_planned = the planned, units_actual = the actual,
                  downtime_minutes = the downtime, has_line_issue = hasLineIssue\<rparr>]\<rparr>)
         else Inl DbError)"

definition QualityInspectionRecord_create ::
  "env \<Rightarrow> nat \<Rightarrow> string \<Rightarrow> bool \<Rightarrow> jsval \<Rightarrow> jsnum \<Rightarrow> jsval \<Rightarrow> db \<Rightarrow> error + db" where
  "QualityInspectionRecord_create e lotId inspectionDate isPass defectType defectCount
     inspectorId d =
     (let day = pg_date inspectionDate;
          dtype = pg_text e defectType;
          cnt = pg_integer defectCount;
          inspector = pg_text e inspectorId
      in if lotId \<in> set (lot_ids d) \<and> day \<noteq> None \<and> (dtype = None \<or> fits 50 dtype)
            \<and> cnt \<noteq> None \<and> 0 \<le> the cnt \<and> fits 50 inspector
         then Inr (d\<lparr>quality_inspection_records := quality_inspection_records d @
                [\<lparr>q_lot_id = lotId, inspection_date = the day, is_pass = isPass,
                  defect_type = dtype, defect_count = the cnt,
                  inspector_id = the inspector\<rparr>]\<rparr>)
         else Inl DbError)"

text \<open>\<open>shipping_records.lot_id\<close> is \<open>UNIQUE\<close>; \<open>destination_state\<close> is \<open>CHAR(2)\<close>, stored
  padded with blanks.\<close>

definition ShippingRecord_create ::
  "env \<Rightarrow> nat \<Rightarrow> string \<Rightarrow> jsval \<Rightarrow> jsval \<Rightarrow> jsnum \<Rightarrow> jsval \<Rightarrow> db \<Rightarrow> error + db" where
  "ShippingRecord_create e lotId shipDate destinationState carrierName qtyShipped
     shipmentStatus d =
     (let day = pg_date shipDate;
          dest = pg_text e destinationState;
          car = pg_text e carrierName;
          qty = pg_integer qtyShipped;
          status = pg_text e shipmentStatus
      in if lotId \<in> set (lot_ids d) \<and> lotId \<notin> set (map s_lot_id (shipping_records d))
            \<and> day \<noteq> None \<and> fits 2 dest \<and> fits 50 car
            \<and> qty \<noteq> None \<and> 0 \<le> the qty \<and> fits 20 status
         then Inr (d\<lparr>shipping_records := shipping_records d @
                [\<lparr>s_lot_id = lotId, ship_date = the day,
                  destination_state = the dest @ replicate (2 - length (the dest)) (CHR '' ''),
                  carrier = the car, qty_shipped = the qty,
                  shipment_status = the status\<rparr>]\<rparr>)
         else Inl DbError)"

text \<open>The queries of the validation rules. \<open>findLotsWithoutQuality\<close>: lots left-joined with
  their inspections, kept where there is none. \<open>findOrphanedShipments\<close>: shipments joined
  with their lot (the row carries the lot code), kept where the lot has no inspection.\<close>

definition findLotsWithoutQuality :: "db \<Rightarrow> lot list" where
  "findLotsWithoutQuality d =
     filter (\<lambda>l. l_id l \<notin> set (map q_lot_id (quality_inspection_records d))) (lots d)"

definition findOrphanedShipments :: "db \<Rightarrow> (shipping_record \<times> string) list" where
  "findOrphanedShipments d =
     concat (map (\<lambda>s. map (\<lambda>l. (s, lot_code l))
                     (filter (\<lambda>l. s_lot_id s = l_id l
                                \<and> l_id l \<notin> set (map q_lot_id (quality_inspection_records d)))
                        (lots d)))
               (shipping_records d))"

subsection \<open>Integrity flags and source metadata\<close>

definition DataIntegrityFlag_create :: "nat \<Rightarrow> string \<Rightarrow> string \<Rightarrow> db \<Rightarrow> error + db" where
  "DataIntegrityFlag_create lotId flagType sev d =
     (if lotId \<in> set (lot_ids d) \<and> length flagType \<le> 50 \<and> length sev \<le> 20
         \<and> sev \<in> set [''Warning'', ''Error'', ''Critical'']
      then Inr (d\<lparr>data_integrity_flags := data_integrity_flags d @
             [\<lparr>f_lot_id = lotId, flag_type = flagType, severity = sev, is_resolved = False\<rparr>]\<rparr>)
      else Inl DbError)"

definition findExisting :: "nat \<Rightarrow> string \<Rightarrow> db \<Rightarrow> data_integrity_flag option" where
  "findExisting lotId flagType d =
     find (\<lambda>f. f_lot_id f = lotId \<and> flag_type f = flagType \<and> is_resolved f = False)
       (data_integrity_flags d)"

text \<open>\<open>DataSourceMetadata.upsert\<close> at the store's time \<open>now\<close> (milliseconds).\<close>

definition DataSourceMetadata_upsert ::
  "int \<Rightarrow> string \<Rightarrow> string \<Rightarrow> string \<Rightarrow> string \<Rightarrow> db \<Rightarrow> error + db" where
  "DataSourceMetadata_upsert now sourceName sourceLocation fileFormat refreshStatus d =
     (if length sourceName \<le> 100 \<and> length fileFormat \<le> 10 \<and> length refreshStatus \<le> 20
         \<and> refreshStatus \<in> set [''Healthy'', ''Stale'', ''Error'']
      then
        (let m = \<lparr>source_name = sourceName, source_location = sourceLocation,
                  file_format = fileFormat, last_updated_timestamp = now,
                  refresh_status = refreshStatus\<rparr>
         in if sourceName \<in> set (map source_name (data_source_metadatas d))
            then Inr (d\<lparr>data_source_metadatas :=
                   map (\<lambda>x. if source_name x = sourceName then m else x)
                     (data_source_metadatas d)\<rparr>)
            else Inr (d\<lparr>data_source_metadatas := data_source_metadatas d @ [m]\<rparr>))
      else Inl DbError)"

text \<open>\<open>getAllSources\<close>: \<open>ORDER BY source_name ASC\<close>, here in the order of the code units.\<close>

definition getAllSources :: "db \<Rightarrow> data_source_metadata list" where
  "getAllSources d = sort_key source_name (data_source_metadatas d)"

section \<open>DataIngestionService\<close>

text \<open>
  A row maps a column name to its cell, \<open>undefined\<close> where the column is missing. The
  entries of \<open>result.errors\<close> are kept by their kind: the row rejected by the guard on the
  lot code and the date, an exception caught while a row is processed, and an exception
  caught by the outer handler.
\<close>

type_synonym row = "string \<Rightarrow> jsval"

datatype ingest_error = InvalidRow | RowError error | IngestionFailed error

record ingest_result =
  source :: string
  recordsRead :: nat
  recordsIngested :: nat
  ingest_errors :: "ingest_error list"

definition push_error :: "ingest_error \<Rightarrow> ingest_result \<Rightarrow> ingest_result" where
  "push_error x res = res\<lparr>ingest_errors := ingest_errors res @ [x]\<rparr>"

definition ingested :: "ingest_result \<Rightarrow> ingest_result" where
  "ingested res = res\<lparr>recordsIngested := recordsIngested res + 1\<rparr>"

text \<open>The lot code and the date of a row, as all three loops compute them: the first
  truthy cell among the two column names, else the empty string.\<close>

definition rowLotCode :: "row \<Rightarrow> error + string" where
  "rowLotCode rcd =
     cleanLotCode (js_or (js_or (rcd ''Lot ID'') (rcd ''LotCode'')) (JStr []))"

definition rowDate :: "env \<Rightarrow> string \<Rightarrow> row \<Rightarrow> error + string option" where
  "rowDate e column rcd =
     standardizeDate (newDate e) (js_or (js_or (rcd column) (rcd ''Date'')) (JStr []))"

text \<open>The guard \<open>!lotCode || !date\<close>.\<close>

definition invalidKey :: "string \<Rightarrow> string option \<Rightarrow> bool" where
  "invalidKey lotCode dt = (lotCode = [] \<or> dt = None \<or> dt = Some [])"

text \<open>The body of the loop of \<open>ingestProductionLogs\<close>, for one record.\<close>

definition ingestProductionRecord ::
  "env \<Rightarrow> row \<Rightarrow> ingest_result \<times> db \<Rightarrow> ingest_result \<times> db" where
  "ingestProductionRecord e rcd st =
     (case st of (res, d) \<Rightarrow>
      (case rowLotCode rcd of
        Inl err \<Rightarrow> (push_error (RowError err) res, d)
      | Inr lotCode \<Rightarrow>
      (case rowDate e ''Production Date'' rcd of
        Inl err \<Rightarrow> (push_error (RowError err) res, d)
      | Inr productionDate \<Rightarrow>
          if invalidKey lotCode productionDate then (push_error InvalidRow res, d)
          else
            (case Lot_create lotCode (the productionDate) d of
               Inl err \<Rightarrow> (push_error (RowError err) res, d)
             | Inr (lot, d1) \<Rightarrow>
                 (let productionLineId =
                        trimString (js_or (js_or (rcd ''Production Line'') (rcd ''Line''))
                                      (JStr []));
                      shiftId = trimString (js_or (rcd ''Shift'') (JStr []));
                      unitsPlanned =
                        toInteger (js_or (js_or (rcd ''Units Planned'') (rcd ''Planned''))
                                     (JNum (Fin 0))) (Fin 0);
                      unitsActual =
                        toInteger (js_or (js_or (rcd ''Units Actual'') (rcd ''Actual''))
                                     (JNum (Fin 0))) (Fin 0);
                      downtimeMinutes =
                        toInteger (js_or (js_or (rcd ''Downtime Minutes'')
                                            (rcd ''DowntimeMinutes'')) (JNum (Fin 0))) (Fin 0);
                      hasLineIssue =
                        toBoolean (js_or (js_or (rcd ''Line Issue'') (rcd ''HasIssue''))
                                     (JBool False)) False
                  in case ProductionRecord_create e (l_id lot) productionLineId shiftId
                            unitsPlanned unitsActual downtimeMinutes hasLineIssue d1 of
                       Inl err \<Rightarrow> (push_error (RowError err) res, d1)
                     | Inr d2 \<Rightarrow> (ingested res, d2))))))"

text \<open>
  \<open>ingestProductionLogs\<close> on the records read from the directory, at the store's time
  \<open>now\<close>. With no record the function returns before the metadata is written; an
  exception of the final upsert reaches the outer handler.
\<close>

definition ingestProductionLogs ::
  "env \<Rightarrow> int \<Rightarrow> row list \<Rightarrow> db \<Rightarrow> ingest_result \<times> db" where
  "ingestProductionLogs e now records d =
     (let result = \<lparr>source = ''Production Logs'', recordsRead = length records,
                     recordsIngested = 0, ingest_errors = []\<rparr>
      in if records = [] then (result, d)
         else
           (case foldl (\<lambda>st rcd. ingestProductionRecord e rcd st) (result, d) records of
              (res, d1) \<Rightarrow>
                (case DataSourceMetadata_upsert now ''Production Logs'' (productionLogsPath e)
                        ''CSV''
                        (if ingest_errors res = [] then ''Healthy''
                         else ''Healthy (Some Errors)'') d1 of
                   Inl err \<Rightarrow> (push_error (IngestionFailed err) res, d1)
                 | Inr d2 \<Rightarrow> (res, d2))))"

text \<open>\<open>findByCompositeKey\<close> and, when it finds nothing, \<open>Lot.create\<close>: the resolution of
  the lot in the quality and the shipping loops.\<close>

definition findOrCreateLot :: "string \<Rightarrow> string \<Rightarrow> db \<Rightarrow> error + (lot \<times> db)" where
  "findOrCreateLot lotCode dt d =
     (case findByCompositeKey lotCode dt d of
        Inl err \<Rightarrow> Inl err
      | Inr found \<Rightarrow>
          (case found of
             Some l \<Rightarrow> Inr (l, d)
           | None \<Rightarrow> Lot_create lotCode dt d))"

text \<open>The body of the loop of \<open>ingestQualityLogs\<close>.\<close>

definition ingestQualityRecord ::
  "env \<Rightarrow> row \<Rightarrow> ingest_result \<times> db \<Rightarrow> ingest_result \<times> db" where
  "ingestQualityRecord e rcd st =
     (case st of (res, d) \<Rightarrow>
      (case rowLotCode rcd of
        Inl err \<Rightarrow> (push_error (RowError err) res, d)
      | Inr lotCode \<Rightarrow>
      (case rowDate e ''Inspection Date'' rcd of
        Inl err \<Rightarrow> (push_error (RowError err) res, d)
      | Inr inspectionDate \<Rightarrow>
          if invalidKey lotCode inspectionDate then (push_error InvalidRow res, d)
          else
            (case findOrCreateLot lotCode (the inspectionDate) d of
               Inl err \<Rightarrow> (push_error (RowError err) res, d)
             | Inr (lot, d1) \<Rightarrow>
                 (let isPass =
                        toBoolean (js_or (js_or (rcd ''Is Pass'') (rcd ''Pass''))
                                     (JBool False)) False;
                      defectType =
                        trimString (js_or (js_or (rcd ''Defect Type'') (rcd ''DefectType''))
                                      (JStr []));
                      defectCount =
                        toInteger (js_or (js_or (rcd ''Defect Count'') (rcd ''DefectCount''))
                                     (JNum (Fin 0))) (Fin 0);
                      inspectorId =
                        trimString (js_or (js_or (rcd ''Inspector ID'') (rcd ''Inspector''))
                                      (JStr ''UNKNOWN''))
                  in case QualityInspectionRecord_create e (l_id lot) (the inspectionDate)
                            isPass defectType defectCount inspectorId d1 of
                       Inl err \<Rightarrow> (push_error (RowError err) res, d1)
                     | Inr d2 \<Rightarrow>
                         (ingested res,
                          Lot_update (l_id lot)
                            (no_updates\<lparr>set_is_pending_inspection := Some False\<rparr>) d2))))))"

definition ingestQualityLogs ::
  "env \<Rightarrow> int \<Rightarrow> row list \<Rightarrow> db \<Rightarrow> ingest_result \<times> db" where
  "ingestQualityLogs e now records d =
     (let result = \<lparr>source = ''Quality Inspection'', recordsRead = length records,
                     recordsIngested = 0, ingest_errors = []\<rparr>
      in if records = [] then (result, d)
         else
           (case foldl (\<lambda>st rcd. ingestQualityRecord e rcd st) (result, d) records of
              (res, d1) \<Rightarrow>
                (case DataSourceMetadata_upsert now ''Quality Inspection'' (qualityLogsPath e)
                        ''XLSX'' ''Healthy'' d1 of
                   Inl err \<Rightarrow> (push_error (IngestionFailed err) res, d1)
                 | Inr d2 \<Rightarrow> (res, d2))))"

text \<open>The body of the loop of \<open>ingestShippingLogs\<close>.\<close>

definition ingestShippingRecord ::
  "env \<Rightarrow> row \<Rightarrow> ingest_result \<times> db \<Rightarrow> ingest_result \<times> db" where
  "ingestShippingRecord e rcd st =
     (case st of (res, d) \<Rightarrow>
      (case rowLotCode rcd of
        Inl err \<Rightarrow> (push_error (RowError err) res, d)
      | Inr lotCode \<Rightarrow>
      (case rowDate e ''Ship Date'' rcd of
        Inl err \<Rightarrow> (push_error (RowError err) res, d)
      | Inr shipDate \<Rightarrow>
          if invalidKey lotCode shipDate then (push_error InvalidRow res, d)
          else
            (case findOrCreateLot lotCode (the shipDate) d of
               Inl err \<Rightarrow> (push_error (RowError err) res, d)
             | Inr (lot, d1) \<Rightarrow>
                 (let destinationState =
                        trimString (js_or (js_or (rcd ''Destination State'') (rcd ''State''))
                                      (JStr []));
                      carrierName = trimString (js_or (rcd ''Carrier'') (JStr ''UNKNOWN''));
                      qtyShipped =
                        toInteger (js_or (js_or (rcd ''Qty Shipped'') (rcd ''Quantity''))
                                     (JNum (Fin 0))) (Fin 0);
                      shipmentStatus = trimString (js_or (rcd ''Status'') (JStr ''In Transit''))
                  in case ShippingRecord_create e (l_id lot) (the shipDate) destinationState
                            carrierName qtyShipped shipmentStatus d1 of
                       Inl err \<Rightarrow> (push_error (RowError err) res, d1)
                     | Inr d2 \<Rightarrow> (ingested res, d2))))))"

definition ingestShippingLogs ::
  "env \<Rightarrow> int \<Rightarrow> row list \<Rightarrow> db \<Rightarrow> ingest_result \<times> db" where
  "ingestShippingLogs e now records d =
     (let result = \<lparr>source = ''Shipping Logs'', recordsRead = length records,
                     recordsIngested = 0, ingest_errors = []\<rparr>
      in if records = [] then (result, d)
         else
           (case foldl (\<lambda>st rcd. ingestShippingRecord e rcd st) (result, d) records of
              (res, d1) \<Rightarrow>
                (case DataSourceMetadata_upsert now ''Shipping Logs'' (shippingLogsPath e)
                        ''XLSX'' ''Healthy'' d1 of
                   Inl err \<Rightarrow> (push_error (IngestionFailed err) res, d1)
                 | Inr d2 \<Rightarrow> (res, d2))))"

section \<open>ValidationService\<close>

record validation_result =
  name :: string
  flagsCreated :: nat
  flagsSkipped :: nat
  validation_errors :: "error list"

text \<open>
  The three rules run the same statements on each row of their query, with their own
  flag type, severity and lot update: look for an unresolved flag of the type on the lot;
  create one and count it when there is none, count a skip otherwise; then write the lot
  flag. An exception of the creation is caught, recorded, and the lot is left as it is.
\<close>

definition ensureFlag ::
  "string \<Rightarrow> string \<Rightarrow> lot_updates \<Rightarrow> nat \<Rightarrow> validation_result \<times> db
     \<Rightarrow> validation_result \<times> db" where
  "ensureFlag flagType sev u lotId st =
     (case st of (res, d) \<Rightarrow>
        (case findExisting lotId flagType d of
           None \<Rightarrow>
             (case DataIntegrityFlag_create lotId flagType sev d of
                Inl err \<Rightarrow> (res\<lparr>validation_errors := validation_errors res @ [err]\<rparr>, d)
              | Inr d1 \<Rightarrow> (res\<lparr>flagsCreated := flagsCreated res + 1\<rparr>, Lot_update lotId u d1))
         | Some existingFlag \<Rightarrow>
             (res\<lparr>flagsSkipped := flagsSkipped res + 1\<rparr>, Lot_update lotId u d)))"

definition runRule ::
  "string \<Rightarrow> string \<Rightarrow> string \<Rightarrow> lot_updates \<Rightarrow> nat list \<Rightarrow> db \<Rightarrow> validation_result \<times> db" where
  "runRule ruleName flagType sev u lotIds d =
     foldl (\<lambda>st lotId. ensureFlag flagType sev u lotId st)
       (\<lparr>name = ruleName, flagsCreated = 0, flagsSkipped = 0, validation_errors = []\<rparr>, d)
       lotIds"

definition validatePendingInspections :: "db \<Rightarrow> validation_result \<times> db" where
  "validatePendingInspections d =
     runRule ''Pending Inspections'' ''Pending Inspection'' ''Warning''
       (no_updates\<lparr>set_is_pending_inspection := Some True\<rparr>)
       (map l_id (findLotsWithoutQuality d)) d"

definition validateOrphanedShipments :: "db \<Rightarrow> validation_result \<times> db" where
  "validateOrphanedShipments d =
     runRule ''Orphaned Shipments'' ''Orphaned Shipment'' ''Critical''
       (no_updates\<lparr>set_has_data_integrity_issue := Some True\<rparr>)
       (map (\<lambda>shipment. s_lot_id (fst shipment)) (findOrphanedShipments d)) d"

text \<open>The query of \<open>validateDateLogic\<close>: shipments joined with their lot, kept where
  \<open>s.ship_date < l.production_date\<close>.\<close>

definition findDateConflicts :: "db \<Rightarrow> (lot \<times> shipping_record) list" where
  "findDateConflicts d =
     concat (map (\<lambda>s. map (\<lambda>l. (l, s))
                     (filter (\<lambda>l. s_lot_id s = l_id l \<and> ship_date s < production_date l)
                        (lots d)))
               (shipping_records d))"

definition validateDateLogic :: "db \<Rightarrow> validation_result \<times> db" where
  "validateDateLogic d =
     runRule ''Date Logic Validation'' ''Date Conflict'' ''Error''
       (no_updates\<lparr>set_has_date_conflict := Some True\<rparr>)
       (map (\<lambda>conflict. l_id (fst conflict)) (findDateConflicts d)) d"

definition runAllValidations :: "db \<Rightarrow> validation_result list \<times> db" where
  "runAllValidations d =
     (case validatePendingInspections d of (r1, d1) \<Rightarrow>
        (case validateOrphanedShipments d1 of (r2, d2) \<Rightarrow>
           (case validateDateLogic d2 of (r3, d3) \<Rightarrow> ([r1, r2, r3], d3))))"

subsection \<open>Source health\<close>

record source_health =
  sourceName :: string
  lastUpdatedTimestamp :: int
  timeSinceUpdateMinutes :: int
  refreshStatus :: string
  sourceLocation :: string
  fileFormat :: string

text \<open>\<open>checkSourceHealth(staleThresholdHours)\<close> at the time \<open>now\<close>; times are in
  milliseconds.\<close>

definition checkSourceHealth :: "rat \<Rightarrow> int \<Rightarrow> db \<Rightarrow> source_health list" where
  "checkSourceHealth staleThresholdHours now d =
     (let staleThresholdMs = staleThresholdHours * 60 * 60 * 1000
      in map (\<lambda>src.
                (let timeSinceUpdate = now - last_updated_timestamp src;
                     isStale = (staleThresholdMs < of_int timeSinceUpdate)
                 in \<lparr>sourceName = source_name src,
                     lastUpdatedTimestamp = last_updated_timestamp src,
                     timeSinceUpdateMinutes = timeSinceUpdate div 60000,
                     refreshStatus = (if isStale then ''Stale'' else refresh_status src),
                     sourceLocation = source_location src,
                     fileFormat = file_format src\<rparr>))
           (getAllSources d))"

section \<open>ReportingService\<close>

text \<open>
  The query of \<open>searchLotByCode\<close>: each lot whose code equals the searched one up to
  letter case, left-joined with its production, inspection and shipping records, the rows
  ordered by production date, latest first. The order among rows of one date is the
  store's choice; here it is the order of insertion.
\<close>

type_synonym search_row =
  "lot \<times> production_record option \<times> quality_inspection_record option \<times> shipping_record option"

definition left_rows :: "'a list \<Rightarrow> 'a option list" where
  "left_rows xs = (if xs = [] then [None] else map Some xs)"

definition joinLot :: "db \<Rightarrow> lot \<Rightarrow> search_row list" where
  "joinLot d l =
     concat (map (\<lambda>pr.
       concat (map (\<lambda>qir.
         map (\<lambda>sr. (l, pr, qir, sr))
           (left_rows (filter (\<lambda>x. s_lot_id x = l_id l) (shipping_records d))))
         (left_rows (filter (\<lambda>x. q_lot_id x = l_id l) (quality_inspection_records d)))))
       (left_rows (filter (\<lambda>x. p_lot_id x = l_id l) (production_records d))))"

definition searchRows :: "string \<Rightarrow> db \<Rightarrow> search_row list" where
  "searchRows lotCode d =
     sort_key (\<lambda>r. - production_date (fst r))
       (concat (map (joinLot d)
          (filter (\<lambda>l. map js_lower (lot_code l) = map js_lower lotCode) (lots d))))"

text \<open>The status derived from the first row: \<open>row.shipment_status\<close> and
  \<open>row.quality_pass\<close> are \<open>null\<close> where the join found no record, and the test
  \<open>if (row.shipment_status)\<close> is one of truthiness.\<close>

definition shipment_status_of :: "search_row \<Rightarrow> string option" where
  "shipment_status_of r = map_option shipment_status (snd (snd (snd r)))"

definition quality_pass_of :: "search_row \<Rightarrow> bool option" where
  "quality_pass_of r = map_option is_pass (fst (snd (snd r)))"

definition currentStatus :: "search_row \<Rightarrow> string" where
  "currentStatus r =
     (if has_date_conflict (fst r) then ''Data Conflict''
      else if shipment_status_of r \<noteq> None \<and> shipment_status_of r \<noteq> Some []
        then the (shipment_status_of r)
      else if quality_pass_of r = Some False then ''Failed Quality''
      else if quality_pass_of r = Some True then ''Passed Quality''
      else if is_pending_inspection (fst r) then ''Pending Inspection''
      else ''In Production'')"

text \<open>\<open>searchLotByCode\<close>: \<open>null\<close> when no row comes back, else the derived status with the
  row it was derived from.\<close>

definition searchLotByCode :: "string \<Rightarrow> db \<Rightarrow> (string \<times> search_row) option" where
  "searchLotByCode lotCode d =
     (case searchRows lotCode d of
        [] \<Rightarrow> None
      | r # rest \<Rightarrow> Some (currentStatus r, r))"

section \<open>Properties of the state\<close>

text \<open>The number of unresolved flags of a type on a lot, and the invariant of the data
  model: at most one for every lot and every type.\<close>

definition unresolvedCount :: "nat \<Rightarrow> string \<Rightarrow> db \<Rightarrow> nat" where
  "unresolvedCount lotId flagType d =
     length (filter (\<lambda>f. f_lot_id f = lotId \<and> flag_type f = flagType \<and> is_resolved f = False)
               (data_integrity_flags d))"

definition atMostOneUnresolved :: "db \<Rightarrow> bool" where
  "atMostOneUnresolved d = (\<forall>lotId flagType. unresolvedCount lotId flagType d \<le> 1)"

text \<open>Sequential passes of the whole rule engine.\<close>

primrec validationPasses :: "nat \<Rightarrow> db \<Rightarrow> db" where
  "validationPasses 0 d = d"
| "validationPasses (Suc n) d = validationPasses n (snd (runAllValidations d))"

text \<open>
  The states the pipeline produces: from the empty store, any sequence of ingestion
  batches of the three sources and of validation runs, whole or rule by rule.
\<close>

inductive reachable :: "env \<Rightarrow> db \<Rightarrow> bool" for e :: env where
  start: "reachable e empty_db"
| production: "reachable e d \<Longrightarrow> reachable e (snd (ingestProductionLogs e now records d))"
| quality: "reachable e d \<Longrightarrow> reachable e (snd (ingestQualityLogs e now records d))"
| shipping: "reachable e d \<Longrightarrow> reachable e (snd (ingestShippingLogs e now records d))"
| pending_rule: "reachable e d \<Longrightarrow> reachable e (snd (validatePendingInspections d))"
| orphaned_rule: "reachable e d \<Longrightarrow> reachable e (snd (validateOrphanedShipments d))"
| date_rule: "reachable e d \<Longrightarrow> reachable e (snd (validateDateLogic d))"
| all_rules: "reachable e d \<Longrightarrow> reachable e (snd (runAllValidations d))"

text \<open>
  The invariant of the reachable states behind the date rule: lot keys are distinct and
  below the sequence, every shipment hangs on a lot, the lots of a shipment carry its ship
  date as their production date, and neither a lot nor a flag records a date conflict.
\<close>

definition shipmentsOnOwnDate :: "db \<Rightarrow> bool" where
  "shipmentsOnOwnDate d =
     (distinct (lot_ids d)
      \<and> list_all (\<lambda>l. l_id l < lots_id_seq d \<and> has_date_conflict l = False) (lots d)
      \<and> list_all (\<lambda>s. s_lot_id s \<in> set (lot_ids d)
                      \<and> list_all (\<lambda>l. l_id l \<noteq> s_lot_id s \<or> production_date l = ship_date s)
                            (lots d))
           (shipping_records d)
      \<and> list_all (\<lambda>f. flag_type f \<noteq> ''Date Conflict'') (data_integrity_flags d))"

text \<open>A rule is settled on a lot when an unresolved flag of its type is there and the
  lot update of the rule changes nothing.\<close>

definition settled :: "string \<Rightarrow> lot_updates \<Rightarrow> db \<Rightarrow> nat \<Rightarrow> bool" where
  "settled flagType u d lotId =
     (findExisting lotId flagType d \<noteq> None
      \<and> list_all (\<lambda>l. l_id l \<noteq> lotId \<or> apply_updates u l = l) (lots d))"

text \<open>What the queries of the rules read of a lot: its key, code and date.\<close>

definition lot_identity :: "lot \<Rightarrow> nat \<times> string \<times> date" where
  "lot_identity l = (l_id l, lot_code l, production_date l)"

text \<open>Two states with the same records apart from the flags and the three marks of the
  lots.\<close>

definition sameRecords :: "db \<Rightarrow> db \<Rightarrow> bool" where
  "sameRecords d d' =
     (map lot_identity (lots d') = map lot_identity (lots d)
      \<and> production_records d' = production_records d
      \<and> quality_inspection_records d' = quality_inspection_records d
      \<and> shipping_records d' = shipping_records d
      \<and> data_source_metadatas d' = data_source_metadatas d
      \<and> lots_id_seq d' = lots_id_seq d)"

section \<open>Example data\<close>

definition example_env :: env where
  "example_env =
     \<lparr>newDate = (\<lambda>t. None), prepareValue = (\<lambda>v. []),
      productionLogsPath = ''./data/sources/production_logs'',
      qualityLogsPath = ''./data/sources/quality_logs'',
      shippingLogsPath = ''./data/sources/shipping_logs''\<rparr>"

definition no_columns :: row where
  "no_columns = (\<lambda>column. JUndefined)"

definition production_row :: row where
  "production_row =
     no_columns(''Lot ID'' := JStr ''LOT-9'', ''Production Date'' := JStr ''2026-02-10'',
       ''Production Line'' := JStr ''P1'', ''Shift'' := JStr ''A'',
       ''Units Planned'' := JStr ''100'', ''Units Actual'' := JStr ''90'')"

definition shipping_row :: row where
  "shipping_row =
     no_columns(''Lot ID'' := JStr ''LOT-9'', ''Ship Date'' := JStr ''2026-02-05'',
       ''Destination State'' := JStr ''CA'', ''Carrier'' := JStr ''FedEx'',
       ''Qty Shipped'' := JStr ''90'', ''Status'' := JStr ''Shipped'')"

definition quality_row :: row where
  "quality_row =
     no_columns(''Lot ID'' := JStr ''LOT-9'', ''Inspection Date'' := JStr ''02/10/2026'',
       ''Pass'' := JStr ''Fail'', ''DefectType'' := JStr ''Functional'',
       ''Defect Count'' := JStr ''3'', ''Inspector'' := JStr ''QC-001'')"

definition production_row_without_code :: row where
  "production_row_without_code =
     no_columns(''Production Date'' := JStr ''2026-02-10'', ''Production Line'' := JStr ''P1'',
       ''Shift'' := JStr ''A'', ''Units Planned'' := JStr ''100'',
       ''Units Actual'' := JStr ''90'')"

definition production_row_bad_date :: row where
  "production_row_bad_date =
     no_columns(''Lot ID'' := JStr ''LOT-7'', ''Production Date'' := JStr ''yesterday'',
       ''Production Line'' := JStr ''P1'', ''Shift'' := JStr ''A'',
       ''Units Planned'' := JStr ''100'', ''Units Actual'' := JStr ''90'')"

text \<open>The store after the production row and then the shipping row of lot \<open>LOT-9\<close> have
  been ingested, and after the rule engine has then run.\<close>

definition shipped_early_db :: db where
  "shipped_early_db =
     snd (ingestShippingLogs example_env 2000 [shipping_row]
            (snd (ingestProductionLogs example_env 1000 [production_row] empty_db)))"

definition shipped_early_validated :: db where
  "shipped_early_validated = snd (runAllValidations shipped_early_db)"

text \<open>A source last written at time 0 with the stored status \<open>Healthy\<close>.\<close>

definition one_source_db :: db where
  "one_source_db =
     empty_db\<lparr>data_source_metadatas :=
       [\<lparr>source_name = ''Production Logs'',
         source_location = ''./data/sources/production_logs'', file_format = ''CSV'',
         last_updated_timestamp = 0, refresh_status = ''Healthy''\<rparr>]\<rparr>"

text \<open>Records for the rows of the lot search.\<close>

definition example_lot :: lot where
  "example_lot =
     \<lparr>l_id = 1, lot_code = ''LOT-9'', production_date = 20260210,
      is_pending_inspection = True, has_data_integrity_issue = False,
      has_date_conflict = False\<rparr>"

definition example_shipment :: shipping_record where
  "example_shipment =
     \<lparr>s_lot_id = 1, ship_date = 20260212, destination_state = ''CA'', carrier = ''FedEx'',
      qty_shipped = 90, shipment_status = ''Shipped''\<rparr>"

definition example_inspection :: quality_inspection_record where
  "example_inspection =
     \<lparr>q_lot_id = 1, inspection_date = 20260211, is_pass = False,
      defect_type = Some ''Functional'', defect_count = 3, inspector_id = ''QC-001''\<rparr>"

section \<open>The field normalizers\<close>

text \<open>The result of \<open>standardizeDate\<close> never depends on the date parser of the engine:
  the branch that calls it repeats the test of the branch before it.\<close>

lemma standardizeDate_ignores_newDate:
  "standardizeDate p v = standardizeDate q v"
  by (simp add: standardizeDate_def Let_def split: jsval.splits option.splits)

text \<open>The only exception of \<open>standardizeDate\<close> is the RangeError of an Invalid Date; the
  only exception of \<open>cleanLotCode\<close> is the TypeError of a value that is not a string.\<close>

lemma standardizeDate_throws_iff:
  "standardizeDate p v = Inl err \<longleftrightarrow> v = JDate None \<and> err = RangeError"
  by (auto simp add: standardizeDate_def Let_def truthy_def
        split: jsval.splits option.splits list.splits)

lemma cleanLotCode_throws_iff:
  "cleanLotCode v = Inl err \<longleftrightarrow> (\<forall>s. v \<noteq> JStr s) \<and> err = TypeError"
  by (auto simp add: cleanLotCode_def trimString_def Let_def split: jsval.splits)

text \<open>
  Claim C7 (the part the code breaks). A slash-separated date that fails the month-first
  pattern is to be handed to the date constructor before the canonicalization gives up.
  On \<open>2026/02/10\<close>, which the engine's constructor parses, \<open>standardizeDate\<close>
  returns \<open>null\<close> all the same: the constructor is never consulted.
\<close>

theorem C7_fallback_never_reached:
  "standardizeDate (\<lambda>t. Some ''2026-02-10T00:00:00.000Z'') (JStr ''2026/02/10'') = Inr None"
  by code_simp

text \<open>
  Claim C8 (the part the code breaks). Every normalizer is to return a result on every
  input. \<open>cleanLotCode\<close> throws a TypeError on the number 123 and on \<open>null\<close>, and
  \<open>standardizeDate\<close> throws a RangeError on an Invalid Date.
\<close>

theorem C8_cleanLotCode_throws_on_number:
  "cleanLotCode (JNum (Fin 123)) = Inl TypeError
   \<and> cleanLotCode JNull = Inl TypeError
   \<and> standardizeDate (\<lambda>t. None) (JDate None) = Inl RangeError"
  by code_simp

section \<open>Ingestion\<close>

text \<open>
  Claim C6 (the part the code breaks). A row with no lot code is to be recorded as an
  error and skipped, with no lot made for it. The production batch of a row without any
  lot column and a regular row reports two rows ingested and no error, and the store
  holds a lot with the code \<open>0\<close> for the first row.
\<close>

theorem C6_row_without_lot_code_is_ingested:
  "fst (ingestProductionLogs example_env 1000 [production_row_without_code, production_row]
          empty_db)
     = \<lparr>source = ''Production Logs'', recordsRead = 2, recordsIngested = 2,
        ingest_errors = []\<rparr>
   \<and> map lot_identity
         (lots (snd (ingestProductionLogs example_env 1000
                       [production_row_without_code, production_row] empty_db)))
     = [(1, ''0'', 20260210), (2, ''LOT-9'', 20260210)]"
  by code_simp

text \<open>
  Claim C1 (the scenario the code breaks). Lot \<open>LOT-9\<close> is produced on 2026-02-10 and a
  shipping row dated 2026-02-05 arrives for it, with no inspection; the rule engine is to
  raise an Orphaned Shipment and a Date Conflict flag on the lot and the search is to
  report Data Conflict. In the code the shipment lands on a second lot, keyed by the ship
  date; the date rule creates nothing, no lot has the date conflict mark, the lot of
  2026-02-10 carries the Pending Inspection flag alone, and the search reports Pending
  Inspection.
\<close>

theorem C1_no_date_conflict_after_pipeline:
  "map lot_identity (lots shipped_early_validated)
     = [(1, ''LOT-9'', 20260210), (2, ''LOT-9'', 20260205)]
   \<and> map (\<lambda>s. (s_lot_id s, ship_date s)) (shipping_records shipped_early_validated)
     = [(2, 20260205)]
   \<and> map flagsCreated (fst (runAllValidations shipped_early_db)) = [2, 1, 0]
   \<and> map (\<lambda>f. (f_lot_id f, flag_type f, severity f, is_resolved f))
        (data_integrity_flags shipped_early_validated)
     = [(1, ''Pending Inspection'', ''Warning'', False),
        (2, ''Pending Inspection'', ''Warning'', False),
        (2, ''Orphaned Shipment'', ''Critical'', False)]
   \<and> map has_date_conflict (lots shipped_early_validated) = [False, False]
   \<and> map_option fst (searchLotByCode ''LOT-9'' shipped_early_validated)
     = Some ''Pending Inspection''"
  by code_simp

section \<open>The status of a lot\<close>

text \<open>
  Claim C3, as stated, fails: a lot that awaits inspection and has a shipping record whose
  status is the empty string is reported as Pending Inspection, not with the status of the
  shipping record. (The shipping loop stores such a status for a \<open>Status\<close> cell of blanks.)
\<close>

theorem C3_blank_status_counterexample:
  "has_date_conflict example_lot = False
   \<and> shipment_status_of (example_lot, None, None, Some (example_shipment\<lparr>shipment_status := []\<rparr>)) = Some []
   \<and> currentStatus (example_lot, None, None, Some (example_shipment\<lparr>shipment_status := []\<rparr>))
       = ''Pending Inspection''"
  by (simp add: currentStatus_def shipment_status_of_def quality_pass_of_def example_lot_def example_shipment_def)

text \<open>
  Claim C3, amended. The status is derived in this order, first match wins: the date
  conflict mark gives Data Conflict; else a shipping record whose status is not the empty
  string gives that status; else (no shipping record, or one with the empty status) a
  failed inspection gives Failed Quality; else a passed inspection gives Passed Quality;
  else the pending mark gives Pending Inspection; otherwise In Production. In particular
  a lot with the date conflict mark and a shipped status is reported as Data Conflict.
\<close>

theorem C3_status_precedence:
  "(has_date_conflict l \<longrightarrow> currentStatus (l, pr, qir, sr) = ''Data Conflict'')
   \<and> (\<not> has_date_conflict l \<and> sr = Some s \<and> shipment_status s \<noteq> []
        \<longrightarrow> currentStatus (l, pr, qir, sr) = shipment_status s)
   \<and> (\<not> has_date_conflict l \<and> map_option shipment_status sr \<in> {None, Some []}
        \<and> qir = Some q \<and> \<not> is_pass q
        \<longrightarrow> currentStatus (l, pr, qir, sr) = ''Failed Quality'')
   \<and> (\<not> has_date_conflict l \<and> map_option shipment_status sr \<in> {None, Some []}
        \<and> qir = Some q \<and> is_pass q
        \<longrightarrow> currentStatus (l, pr, qir, sr) = ''Passed Quality'')
   \<and> (\<not> has_date_conflict l \<and> map_option shipment_status sr \<in> {None, Some []}
        \<and> qir = None \<and> is_pending_inspection l
        \<longrightarrow> currentStatus (l, pr, qir, sr) = ''Pending Inspection'')
   \<and> (\<not> has_date_conflict l \<and> map_option shipment_status sr \<in> {None, Some []}
        \<and> qir = None \<and> \<not> is_pending_inspection l
        \<longrightarrow> currentStatus (l, pr, qir, sr) = ''In Production'')"
  by (auto simp add: currentStatus_def shipment_status_of_def quality_pass_of_def)

text \<open>One row for each line of the precedence.\<close>

theorem C3_status_precedence_witness:
  "currentStatus (example_lot\<lparr>has_date_conflict := True\<rparr>, None, Some example_inspection,
       Some example_shipment) = ''Data Conflict''
   \<and> currentStatus (example_lot, None, Some example_inspection, Some example_shipment)
       = ''Shipped''
   \<and> currentStatus (example_lot, None, Some example_inspection,
       Some (example_shipment\<lparr>shipment_status := []\<rparr>)) = ''Failed Quality''
   \<and> currentStatus (example_lot, None, Some (example_inspection\<lparr>is_pass := True\<rparr>), None)
       = ''Passed Quality''
   \<and> currentStatus (example_lot, None, None, None) = ''Pending Inspection''
   \<and> currentStatus (example_lot\<lparr>is_pending_inspection := False\<rparr>, None, None, None)
       = ''In Production''"
  using
    C3_status_precedence [where l = "example_lot\<lparr>has_date_conflict := True\<rparr>" and pr = None
      and qir = "Some example_inspection" and sr = "Some example_shipment"]
    C3_status_precedence [where l = example_lot and pr = None
      and qir = "Some example_inspection" and sr = "Some example_shipment"
      and s = example_shipment]
    C3_status_precedence [where l = example_lot and pr = None
      and qir = "Some example_inspection" and q = example_inspection
      and sr = "Some (example_shipment\<lparr>shipment_status := []\<rparr>)"]
    C3_status_precedence [where l = example_lot and pr = None and sr = None
      and qir = "Some (example_inspection\<lparr>is_pass := True\<rparr>)"
      and q = "example_inspection\<lparr>is_pass := True\<rparr>"]
    C3_status_precedence [where l = example_lot and pr = None and qir = None and sr = None]
    C3_status_precedence [where l = "example_lot\<lparr>is_pending_inspection := False\<rparr>"
      and pr = None and qir = None and sr = None]
  by (simp add: example_lot_def example_shipment_def example_inspection_def)

section \<open>Source health\<close>

text \<open>
  Claim C10. For every stored source the health check has an entry with the source's name
  and time of last update whose status is Stale when the time since the update exceeds the
  threshold, whatever the stored status, and the stored status otherwise.
\<close>

theorem C10_stale_overrides_stored_status:
  assumes "src \<in> set (data_source_metadatas d)"
  shows "\<exists>h \<in> set (checkSourceHealth staleThresholdHours now d).
           sourceName h = source_name src
           \<and> lastUpdatedTimestamp h = last_updated_timestamp src
           \<and> refreshStatus h =
               (if staleThresholdHours * 3600000 < of_int (now - last_updated_timestamp src)
                then ''Stale'' else refresh_status src)"
  using assms
  by (auto simp add: checkSourceHealth_def getAllSources_def Let_def intro!: bexI [of _ src])

text \<open>With a threshold of 24 hours, a source written 30 hours ago and stored as Healthy
  is reported as Stale.\<close>

theorem C10_stale_overrides_stored_status_witness:
  "\<exists>h \<in> set (checkSourceHealth 24 (30 * 3600000) one_source_db).
      sourceName h = ''Production Logs'' \<and> lastUpdatedTimestamp h = 0
      \<and> refreshStatus h = ''Stale''"
  using C10_stale_overrides_stored_status
    [of "\<lparr>source_name = ''Production Logs'',
          source_location = ''./data/sources/production_logs'', file_format = ''CSV'',
          last_updated_timestamp = 0, refresh_status = ''Healthy''\<rparr>"
        one_source_db 24 "30 * 3600000"]
  by (simp add: one_source_db_def)

section \<open>The validation rule engine\<close>

subsection \<open>At most one unresolved flag\<close>

lemma unresolvedCount_Lot_update [simp]:
  "unresolvedCount i t (Lot_update j u d) = unresolvedCount i t d"
  by (simp add: unresolvedCount_def Lot_update_def)

lemma findExisting_None_count:
  "findExisting i t d = None \<Longrightarrow> unresolvedCount i t d = 0"
  by (auto simp add: findExisting_def unresolvedCount_def find_None_iff filter_empty_conv)

lemma unresolvedCount_create:
  "DataIntegrityFlag_create i t sev d = Inr d1 \<Longrightarrow>
   unresolvedCount j t' d1 = unresolvedCount j t' d + (if j = i \<and> t' = t then 1 else 0)"
  by (auto simp add: DataIntegrityFlag_create_def unresolvedCount_def split: if_splits)

lemma ensureFlag_atMostOne:
  assumes "atMostOneUnresolved (snd st)"
  shows "atMostOneUnresolved (snd (ensureFlag t sev u i st))"
proof (cases st)
  case (Pair res d)
  show ?thesis
  proof (cases "findExisting i t d")
    case (Some f)
    with Pair assms show ?thesis
      by (simp add: ensureFlag_def atMostOneUnresolved_def)
  next
    case None
    show ?thesis
    proof (cases "DataIntegrityFlag_create i t sev d")
      case (Inl err)
      with None Pair assms show ?thesis
        by (simp add: ensureFlag_def)
    next
      case (Inr d1)
      have "unresolvedCount j t' d1 \<le> 1" for j t'
        using assms Pair findExisting_None_count [OF None] unresolvedCount_create [OF Inr, of j t']
        by (auto simp add: atMostOneUnresolved_def)
      with None Inr Pair show ?thesis
        by (simp add: ensureFlag_def atMostOneUnresolved_def)
    qed
  qed
qed

lemma ensureFlag_loop_atMostOne:
  "atMostOneUnresolved (snd st) \<Longrightarrow>
   atMostOneUnresolved (snd (foldl (\<lambda>st i. ensureFlag t sev u i st) st lotIds))"
  by (induction lotIds arbitrary: st) (simp_all add: ensureFlag_atMostOne)

lemma runRule_atMostOne:
  "atMostOneUnresolved d \<Longrightarrow> atMostOneUnresolved (snd (runRule n t sev u lotIds d))"
  unfolding runRule_def by (rule ensureFlag_loop_atMostOne) simp

lemma snd_runAllValidations:
  "snd (runAllValidations d) =
     snd (validateDateLogic (snd (validateOrphanedShipments (snd (validatePendingInspections d)))))"
  by (simp add: runAllValidations_def split: prod.splits)

lemma runAllValidations_atMostOne:
  "atMostOneUnresolved d \<Longrightarrow> atMostOneUnresolved (snd (runAllValidations d))"
  by (simp add: snd_runAllValidations validatePendingInspections_def
        validateOrphanedShipments_def validateDateLogic_def runRule_atMostOne)

text \<open>
  Claim C5. From any state in which every lot has at most one unresolved flag of every
  type, any number of sequential passes of the rule engine leads to a state in which this
  still holds.
\<close>

theorem C5_at_most_one_unresolved_flag:
  "atMostOneUnresolved d \<Longrightarrow> atMostOneUnresolved (validationPasses n d)"
  by (induction n arbitrary: d) (simp_all add: runAllValidations_atMostOne)

text \<open>The state of the example after its first pass has three unresolved flags; three
  more passes keep the invariant.\<close>

theorem C5_at_most_one_unresolved_flag_witness:
  "atMostOneUnresolved shipped_early_validated
   \<and> atMostOneUnresolved (validationPasses 3 shipped_early_validated)"
proof -
  have flags: "data_integrity_flags shipped_early_validated =
      [\<lparr>f_lot_id = 1, flag_type = ''Pending Inspection'', severity = ''Warning'',
         is_resolved = False\<rparr>,
       \<lparr>f_lot_id = 2, flag_type = ''Pending Inspection'', severity = ''Warning'',
         is_resolved = False\<rparr>,
       \<lparr>f_lot_id = 2, flag_type = ''Orphaned Shipment'', severity = ''Critical'',
         is_resolved = False\<rparr>]"
    by code_simp
  have h: "atMostOneUnresolved shipped_early_validated"
    unfolding atMostOneUnresolved_def unresolvedCount_def flags by auto
  show ?thesis
    using h C5_at_most_one_unresolved_flag [OF h, of 3] by simp
qed

subsection \<open>What a rule leaves unchanged\<close>

lemma lot_identity_apply_updates [simp]:
  "lot_identity (apply_updates u l) = lot_identity l"
  by (simp add: lot_identity_def apply_updates_def)

lemma l_id_apply_updates [simp]: "l_id (apply_updates u l) = l_id l"
  by (simp add: apply_updates_def)

lemma apply_updates_idem [simp]:
  "apply_updates u (apply_updates u l) = apply_updates u l"
  by (simp add: apply_updates_def split: option.splits)

lemma sameRecords_refl [simp]: "sameRecords d d"
  by (simp add: sameRecords_def)

lemma sameRecords_trans: "sameRecords a b \<Longrightarrow> sameRecords b c \<Longrightarrow> sameRecords a c"
  by (simp add: sameRecords_def)

lemma sameRecords_Lot_update [simp]: "sameRecords d (Lot_update i u d)"
  by (simp add: sameRecords_def Lot_update_def comp_def)

lemma sameRecords_create:
  "DataIntegrityFlag_create i t sev d = Inr d1 \<Longrightarrow> sameRecords d d1"
  by (auto simp add: DataIntegrityFlag_create_def sameRecords_def split: if_splits)

lemma sameRecords_lot_ids: "sameRecords d d' \<Longrightarrow> lot_ids d' = lot_ids d"
proof -
  assume "sameRecords d d'"
  then have "map fst (map lot_identity (lots d')) = map fst (map lot_identity (lots d))"
    by (simp add: sameRecords_def)
  then show ?thesis by (simp add: lot_ids_def comp_def lot_identity_def)
qed

lemma sameRecords_ensureFlag: "sameRecords (snd st) (snd (ensureFlag t sev u i st))"
  by (cases st)
     (auto simp add: ensureFlag_def split: option.splits sum.splits
        intro: sameRecords_trans [OF sameRecords_create sameRecords_Lot_update])

lemma sameRecords_loop:
  "sameRecords (snd st) (snd (foldl (\<lambda>st i. ensureFlag t sev u i st) st lotIds))"
proof (induction lotIds arbitrary: st)
  case Nil
  show ?case by simp
next
  case (Cons i lotIds)
  show ?case
    using sameRecords_trans [OF sameRecords_ensureFlag Cons.IH] by simp
qed

lemma sameRecords_runRule: "sameRecords d (snd (runRule n t sev u lotIds d))"
  unfolding runRule_def using sameRecords_loop [of "(r, d)" for r] by simp


text \<open>The lot keys a rule visits depend on the lots only through their key, code and
  date, and every key visited is the key of a lot.\<close>

lemma filter_through_map:
  assumes "map f xs = map f ys" and "\<And>x y. f x = f y \<Longrightarrow> g x = g y"
  shows "map g (filter (\<lambda>x. P (f x)) xs) = map g (filter (\<lambda>x. P (f x)) ys)"
  using assms(1)
proof (induction xs arbitrary: ys)
  case Nil
  then show ?case by simp
next
  case (Cons x xs)
  then obtain y ys' where ys: "ys = y # ys'" "f x = f y" "map f xs = map f ys'"
    by (cases ys) auto
  with Cons.IH [of ys'] assms(2) [of x y] show ?case by simp
qed

lemma targets_pending:
  assumes "sameRecords d d'"
  shows "map l_id (findLotsWithoutQuality d') = map l_id (findLotsWithoutQuality d)"
proof -
  have q: "quality_inspection_records d' = quality_inspection_records d"
    and m: "map lot_identity (lots d') = map lot_identity (lots d)"
    using assms by (simp_all add: sameRecords_def)
  show ?thesis
    unfolding findLotsWithoutQuality_def q
    using filter_through_map [where f = lot_identity and g = l_id
        and P = "\<lambda>k. fst k \<notin> set (map q_lot_id (quality_inspection_records d))", OF m]
    by (simp add: lot_identity_def)
qed

lemma orphaned_targets:
  "map (\<lambda>shipment. s_lot_id (fst shipment)) (findOrphanedShipments d)
     = concat (map (\<lambda>s. map (\<lambda>l. s_lot_id s)
                 (filter (\<lambda>l. s_lot_id s = l_id l
                            \<and> l_id l \<notin> set (map q_lot_id (quality_inspection_records d)))
                    (lots d)))
         (shipping_records d))"
  by (simp add: findOrphanedShipments_def map_concat comp_def)

lemma targets_orphaned:
  assumes "sameRecords d d'"
  shows "map (\<lambda>shipment. s_lot_id (fst shipment)) (findOrphanedShipments d')
       = map (\<lambda>shipment. s_lot_id (fst shipment)) (findOrphanedShipments d)"
proof -
  have q: "quality_inspection_records d' = quality_inspection_records d"
    and sh: "shipping_records d' = shipping_records d"
    and m: "map lot_identity (lots d') = map lot_identity (lots d)"
    using assms by (simp_all add: sameRecords_def)
  have "(\<lambda>s. map (\<lambda>l. s_lot_id s)
          (filter (\<lambda>l. s_lot_id s = l_id l
             \<and> l_id l \<notin> set (map q_lot_id (quality_inspection_records d))) (lots d')))
      = (\<lambda>s. map (\<lambda>l. s_lot_id s)
          (filter (\<lambda>l. s_lot_id s = l_id l
             \<and> l_id l \<notin> set (map q_lot_id (quality_inspection_records d))) (lots d)))"
  proof (rule ext)
    fix s
    show "map (\<lambda>l. s_lot_id s)
          (filter (\<lambda>l. s_lot_id s = l_id l
             \<and> l_id l \<notin> set (map q_lot_id (quality_inspection_records d))) (lots d'))
      = map (\<lambda>l. s_lot_id s)
          (filter (\<lambda>l. s_lot_id s = l_id l
             \<and> l_id l \<notin> set (map q_lot_id (quality_inspection_records d))) (lots d))"
      using filter_through_map [where f = lot_identity and g = "\<lambda>l. s_lot_id s"
          and P = "\<lambda>k. s_lot_id s = fst k
                     \<and> fst k \<notin> set (map q_lot_id (quality_inspection_records d))", OF m]
      by (simp add: lot_identity_def)
  qed
  then show ?thesis
    unfolding orphaned_targets q sh by (rule arg_cong)
qed

lemma date_targets:
  "map (\<lambda>conflict. l_id (fst conflict)) (findDateConflicts d)
     = concat (map (\<lambda>s. map l_id
                 (filter (\<lambda>l. s_lot_id s = l_id l \<and> ship_date s < production_date l) (lots d)))
         (shipping_records d))"
  by (simp add: findDateConflicts_def map_concat comp_def)

lemma targets_date:
  assumes "sameRecords d d'"
  shows "map (\<lambda>conflict. l_id (fst conflict)) (findDateConflicts d')
       = map (\<lambda>conflict. l_id (fst conflict)) (findDateConflicts d)"
proof -
  have sh: "shipping_records d' = shipping_records d"
    and m: "map lot_identity (lots d') = map lot_identity (lots d)"
    using assms by (simp_all add: sameRecords_def)
  have "(\<lambda>s. map l_id
           (filter (\<lambda>l. s_lot_id s = l_id l \<and> ship_date s < production_date l) (lots d')))
      = (\<lambda>s. map l_id
           (filter (\<lambda>l. s_lot_id s = l_id l \<and> ship_date s < production_date l) (lots d)))"
  proof (rule ext)
    fix s
    show "map l_id
           (filter (\<lambda>l. s_lot_id s = l_id l \<and> ship_date s < production_date l) (lots d'))
      = map l_id
           (filter (\<lambda>l. s_lot_id s = l_id l \<and> ship_date s < production_date l) (lots d))"
      using filter_through_map [where f = lot_identity and g = l_id
          and P = "\<lambda>k. s_lot_id s = fst k \<and> ship_date s < snd (snd k)", OF m]
      by (simp add: lot_identity_def)
  qed
  then show ?thesis
    unfolding date_targets sh by (rule arg_cong)
qed

lemma targets_pending_are_lots: "set (map l_id (findLotsWithoutQuality d)) \<subseteq> set (lot_ids d)"
  by (auto simp add: findLotsWithoutQuality_def lot_ids_def)

lemma targets_orphaned_are_lots:
  "set (map (\<lambda>shipment. s_lot_id (fst shipment)) (findOrphanedShipments d)) \<subseteq> set (lot_ids d)"
  by (auto simp add: findOrphanedShipments_def lot_ids_def)

lemma targets_date_are_lots:
  "set (map (\<lambda>conflict. l_id (fst conflict)) (findDateConflicts d)) \<subseteq> set (lot_ids d)"
  by (auto simp add: findDateConflicts_def lot_ids_def)

subsection \<open>Settled rules\<close>

lemma findExisting_Lot_update [simp]:
  "findExisting i t (Lot_update j u d) = findExisting i t d"
  by (simp add: findExisting_def Lot_update_def)

lemma lots_Lot_update:
  "lots (Lot_update j u d) = map (\<lambda>l. if l_id l = j then apply_updates u l else l) (lots d)"
  by (simp add: Lot_update_def)

lemma findExisting_create_same:
  assumes "DataIntegrityFlag_create i t sev d = Inr d1"
  shows "findExisting i t d1 \<noteq> None"
proof -
  from assms have "data_integrity_flags d1 = data_integrity_flags d @
      [\<lparr>f_lot_id = i, flag_type = t, severity = sev, is_resolved = False\<rparr>]"
    by (auto simp add: DataIntegrityFlag_create_def split: if_splits)
  then show ?thesis
    by (auto simp add: findExisting_def find_None_iff
          intro!: exI [of _ "\<lparr>f_lot_id = i, flag_type = t, severity = sev, is_resolved = False\<rparr>"])
qed

lemma list_all_map_always: "(\<And>x. Q (f x)) \<Longrightarrow> list_all Q (map f xs)"
  by (induction xs) simp_all

lemma list_all_map_kept: "list_all Q xs \<Longrightarrow> (\<And>x. Q x \<Longrightarrow> Q (f x)) \<Longrightarrow> list_all Q (map f xs)"
  by (induction xs) simp_all

lemma settled_Lot_update_self:
  assumes "findExisting i t d \<noteq> None"
  shows "settled t u (Lot_update i u d) i"
proof -
  have "list_all (\<lambda>l. l_id l \<noteq> i \<or> apply_updates u l = l)
          (map (\<lambda>l. if l_id l = i then apply_updates u l else l) (lots d))"
    by (rule list_all_map_always) simp
  with assms show ?thesis
    by (simp add: settled_def lots_Lot_update)
qed

lemma settled_Lot_update_other:
  assumes "settled t u d i"
    and "\<And>l. apply_updates u l = l \<Longrightarrow> apply_updates u (apply_updates u' l) = apply_updates u' l"
  shows "settled t u (Lot_update j u' d) i"
proof -
  have "list_all (\<lambda>l. l_id l \<noteq> i \<or> apply_updates u l = l)
          (map (\<lambda>l. if l_id l = j then apply_updates u' l else l) (lots d))"
  proof (rule list_all_map_kept)
    show "list_all (\<lambda>l. l_id l \<noteq> i \<or> apply_updates u l = l) (lots d)"
      using assms(1) by (simp add: settled_def)
  next
    fix l
    assume "l_id l \<noteq> i \<or> apply_updates u l = l"
    then show "l_id (if l_id l = j then apply_updates u' l else l) \<noteq> i
        \<or> apply_updates u (if l_id l = j then apply_updates u' l else l)
            = (if l_id l = j then apply_updates u' l else l)"
      using assms(2) [of l] by (cases "l_id l = j") auto
  qed
  with assms(1) show ?thesis
    by (simp add: settled_def lots_Lot_update)
qed

lemma findExisting_create_keeps:
  assumes "DataIntegrityFlag_create j t' sev d = Inr d1" and "findExisting i t d \<noteq> None"
  shows "findExisting i t d1 \<noteq> None"
proof -
  from assms(1) have "set (data_integrity_flags d) \<subseteq> set (data_integrity_flags d1)"
    by (auto simp add: DataIntegrityFlag_create_def split: if_splits)
  with assms(2) show ?thesis
    by (auto simp add: findExisting_def find_None_iff)
qed

lemma lots_create:
  "DataIntegrityFlag_create j t' sev d = Inr d1 \<Longrightarrow> lots d1 = lots d"
  by (auto simp add: DataIntegrityFlag_create_def split: if_splits)

lemma create_succeeds:
  "i \<in> set (lot_ids d) \<Longrightarrow> length t \<le> 50 \<Longrightarrow> sev \<in> set [''Warning'', ''Error'', ''Critical'']
     \<Longrightarrow> \<exists>d1. DataIntegrityFlag_create i t sev d = Inr d1"
  by (auto simp add: DataIntegrityFlag_create_def)

lemma settled_after_ensureFlag:
  assumes "i \<in> set (lot_ids (snd st))" and "length t \<le> 50"
    and "sev \<in> set [''Warning'', ''Error'', ''Critical'']"
  shows "settled t u (snd (ensureFlag t sev u i st)) i"
proof (cases st)
  case (Pair res d)
  show ?thesis
  proof (cases "findExisting i t d")
    case (Some f)
    then have "settled t u (Lot_update i u d) i"
      by (intro settled_Lot_update_self) simp
    with Some Pair show ?thesis
      by (simp add: ensureFlag_def)
  next
    case None
    from assms Pair obtain d1 where d1: "DataIntegrityFlag_create i t sev d = Inr d1"
      using create_succeeds [of i d t sev] by auto
    have "settled t u (Lot_update i u d1) i"
      using findExisting_create_same [OF d1] by (rule settled_Lot_update_self)
    with None d1 Pair show ?thesis
      by (simp add: ensureFlag_def)
  qed
qed

lemma settled_kept_by_ensureFlag:
  assumes "settled t u (snd st) i"
    and "\<And>l. apply_updates u l = l \<Longrightarrow> apply_updates u (apply_updates u' l) = apply_updates u' l"
  shows "settled t u (snd (ensureFlag t' sev' u' j st)) i"
proof (cases st)
  case (Pair res d)
  show ?thesis
  proof (cases "findExisting j t' d")
    case (Some f)
    have "settled t u (Lot_update j u' d) i"
      using assms Pair by (intro settled_Lot_update_other) simp_all
    with Some Pair show ?thesis by (simp add: ensureFlag_def)
  next
    case None
    show ?thesis
    proof (cases "DataIntegrityFlag_create j t' sev' d")
      case (Inl err)
      with None Pair assms(1) show ?thesis by (simp add: ensureFlag_def)
    next
      case (Inr d1)
      have "settled t u d1 i"
        using assms(1) Pair findExisting_create_keeps [OF Inr, of i t] lots_create [OF Inr]
        by (simp add: settled_def)
      then have "settled t u (Lot_update j u' d1) i"
        using assms(2) by (rule settled_Lot_update_other)
      with None Inr Pair show ?thesis by (simp add: ensureFlag_def)
    qed
  qed
qed

lemma settled_kept_by_loop:
  assumes "\<And>l. apply_updates u l = l \<Longrightarrow> apply_updates u (apply_updates u' l) = apply_updates u' l"
  shows "settled t u (snd st) i
     \<Longrightarrow> settled t u (snd (foldl (\<lambda>st j. ensureFlag t' sev' u' j st) st lotIds)) i"
proof (induction lotIds arbitrary: st)
  case Nil
  then show ?case by simp
next
  case (Cons j lotIds)
  show ?case
    using Cons.IH [OF settled_kept_by_ensureFlag [OF Cons.prems assms]] by simp
qed

lemma settled_kept_by_runRule:
  assumes "\<And>l. apply_updates u l = l \<Longrightarrow> apply_updates u (apply_updates u' l) = apply_updates u' l"
    and "settled t u d i"
  shows "settled t u (snd (runRule n t' sev' u' lotIds d)) i"
proof -
  have "settled t u
          (snd (\<lparr>name = n, flagsCreated = 0, flagsSkipped = 0, validation_errors = []\<rparr>, d)) i"
    using assms(2) by simp
  from settled_kept_by_loop [OF assms(1) this] show ?thesis
    by (simp add: runRule_def)
qed

lemma settled_after_loop:
  assumes "length t \<le> 50" and "sev \<in> set [''Warning'', ''Error'', ''Critical'']"
  shows "set lotIds \<subseteq> set (lot_ids (snd st)) \<Longrightarrow> i \<in> set lotIds
     \<Longrightarrow> settled t u (snd (foldl (\<lambda>st j. ensureFlag t sev u j st) st lotIds)) i"
proof (induction lotIds arbitrary: st)
  case Nil
  then show ?case by simp
next
  case (Cons j lotIds)
  have ids: "lot_ids (snd (ensureFlag t sev u j st)) = lot_ids (snd st)"
    using sameRecords_lot_ids [OF sameRecords_ensureFlag] .
  show ?case
  proof (cases "i \<in> set lotIds")
    case True
    with Cons.IH [of "ensureFlag t sev u j st"] Cons.prems ids show ?thesis by simp
  next
    case False
    with Cons.prems have "i = j" and "j \<in> set (lot_ids (snd st))" by auto
    then have "settled t u (snd (ensureFlag t sev u j st)) i"
      using settled_after_ensureFlag [OF _ assms] by simp
    then have "settled t u (snd (foldl (\<lambda>st j. ensureFlag t sev u j st)
                 (ensureFlag t sev u j st) lotIds)) i"
      by (rule settled_kept_by_loop [rotated]) simp
    then show ?thesis by simp
  qed
qed

lemma settled_after_runRule:
  assumes "length t \<le> 50" and "sev \<in> set [''Warning'', ''Error'', ''Critical'']"
    and "set lotIds \<subseteq> set (lot_ids d)" and "i \<in> set lotIds"
  shows "settled t u (snd (runRule n t sev u lotIds d)) i"
proof -
  have "set lotIds \<subseteq> set (lot_ids
          (snd (\<lparr>name = n, flagsCreated = 0, flagsSkipped = 0, validation_errors = []\<rparr>, d)))"
    using assms(3) by simp
  from settled_after_loop [OF assms(1,2) this assms(4)] show ?thesis
    by (simp add: runRule_def)
qed

lemma Lot_update_settled: "settled t u d i \<Longrightarrow> Lot_update i u d = d"
proof -
  assume "settled t u d i"
  then have "map (\<lambda>l. if l_id l = i then apply_updates u l else l) (lots d) = lots d"
    by (intro map_idI) (auto simp add: settled_def list_all_iff)
  then show ?thesis by (simp add: Lot_update_def)
qed

lemma ensureFlag_settled:
  assumes "settled t u d i"
  shows "ensureFlag t sev u i (res, d) = (res\<lparr>flagsSkipped := flagsSkipped res + 1\<rparr>, d)"
proof -
  from assms obtain f where "findExisting i t d = Some f"
    by (auto simp add: settled_def)
  then show ?thesis
    using Lot_update_settled [OF assms] by (simp add: ensureFlag_def)
qed

lemma loop_settled:
  "\<forall>i \<in> set lotIds. settled t u d i \<Longrightarrow>
   foldl (\<lambda>st i. ensureFlag t sev u i st) (res, d) lotIds
     = (res\<lparr>flagsSkipped := flagsSkipped res + length lotIds\<rparr>, d)"
proof (induction lotIds arbitrary: res)
  case Nil
  then show ?case by simp
next
  case (Cons i lotIds)
  then show ?case by (simp add: ensureFlag_settled)
qed

lemma runRule_settled:
  "\<forall>i \<in> set lotIds. settled t u d i \<Longrightarrow>
   runRule n t sev u lotIds d
     = (\<lparr>name = n, flagsCreated = 0, flagsSkipped = length lotIds, validation_errors = []\<rparr>, d)"
  by (simp add: runRule_def loop_settled)

subsection \<open>The second run\<close>

lemma rule_updates_compatible:
  assumes "u \<in> {no_updates\<lparr>set_is_pending_inspection := Some True\<rparr>,
                 no_updates\<lparr>set_has_data_integrity_issue := Some True\<rparr>,
                 no_updates\<lparr>set_has_date_conflict := Some True\<rparr>}"
    and "u' \<in> {no_updates\<lparr>set_is_pending_inspection := Some True\<rparr>,
                 no_updates\<lparr>set_has_data_integrity_issue := Some True\<rparr>,
                 no_updates\<lparr>set_has_date_conflict := Some True\<rparr>}"
    and "apply_updates u l = l"
  shows "apply_updates u (apply_updates u' l) = apply_updates u' l"
  using assms by (cases l) (auto simp add: apply_updates_def no_updates_def)

lemma second_pass_changes_nothing:
  fixes d :: db
  defines "d3 \<equiv> snd (runAllValidations d)"
  shows "runAllValidations d3 =
     ([\<lparr>name = ''Pending Inspections'', flagsCreated = 0,
         flagsSkipped = length (findLotsWithoutQuality d3), validation_errors = []\<rparr>,
       \<lparr>name = ''Orphaned Shipments'', flagsCreated = 0,
         flagsSkipped = length (findOrphanedShipments d3), validation_errors = []\<rparr>,
       \<lparr>name = ''Date Logic Validation'', flagsCreated = 0,
         flagsSkipped = length (findDateConflicts d3), validation_errors = []\<rparr>], d3)"
proof -
  define d1 where "d1 = snd (validatePendingInspections d)"
  define d2 where "d2 = snd (validateOrphanedShipments d1)"
  have d3: "d3 = snd (validateDateLogic d2)"
    by (simp add: d3_def d2_def d1_def snd_runAllValidations)
  have s1: "sameRecords d d1" and s2: "sameRecords d1 d2" and s3: "sameRecords d2 d3"
    by (simp_all add: d1_def d2_def d3 validatePendingInspections_def
          validateOrphanedShipments_def validateDateLogic_def sameRecords_runRule)
  have s13: "sameRecords d1 d3" and s03: "sameRecords d d3"
    using s1 s2 s3 by (blast intro: sameRecords_trans)+
  have p1: "settled ''Pending Inspection'' (no_updates\<lparr>set_is_pending_inspection := Some True\<rparr>) d1 i"
    if "i \<in> set (map l_id (findLotsWithoutQuality d))" for i
    unfolding d1_def validatePendingInspections_def
    by (rule settled_after_runRule [OF _ _ targets_pending_are_lots that]) simp_all
  have p2: "settled ''Pending Inspection'' (no_updates\<lparr>set_is_pending_inspection := Some True\<rparr>) d2 i"
    if "i \<in> set (map l_id (findLotsWithoutQuality d))" for i
    unfolding d2_def validateOrphanedShipments_def
    by (rule settled_kept_by_runRule [OF rule_updates_compatible p1 [OF that]]) simp_all
  have p3: "settled ''Pending Inspection'' (no_updates\<lparr>set_is_pending_inspection := Some True\<rparr>) d3 i"
    if "i \<in> set (map l_id (findLotsWithoutQuality d))" for i
    unfolding d3 validateDateLogic_def
    by (rule settled_kept_by_runRule [OF rule_updates_compatible p2 [OF that]]) simp_all
  have o2: "settled ''Orphaned Shipment'' (no_updates\<lparr>set_has_data_integrity_issue := Some True\<rparr>) d2 i"
    if "i \<in> set (map (\<lambda>shipment. s_lot_id (fst shipment)) (findOrphanedShipments d1))" for i
    unfolding d2_def validateOrphanedShipments_def
    by (rule settled_after_runRule [OF _ _ targets_orphaned_are_lots that]) simp_all
  have o3: "settled ''Orphaned Shipment'' (no_updates\<lparr>set_has_data_integrity_issue := Some True\<rparr>) d3 i"
    if "i \<in> set (map (\<lambda>shipment. s_lot_id (fst shipment)) (findOrphanedShipments d1))" for i
    unfolding d3 validateDateLogic_def
    by (rule settled_kept_by_runRule [OF rule_updates_compatible o2 [OF that]]) simp_all
  have c3: "settled ''Date Conflict'' (no_updates\<lparr>set_has_date_conflict := Some True\<rparr>) d3 i"
    if "i \<in> set (map (\<lambda>conflict. l_id (fst conflict)) (findDateConflicts d2))" for i
    unfolding d3 validateDateLogic_def
    by (rule settled_after_runRule [OF _ _ targets_date_are_lots that]) simp_all
  have l1: "length (findLotsWithoutQuality d3) = length (findLotsWithoutQuality d)"
    using arg_cong [OF targets_pending [OF s03], of length] by simp
  have l2: "length (findOrphanedShipments d3) = length (findOrphanedShipments d1)"
    using arg_cong [OF targets_orphaned [OF s13], of length] by simp
  have l3: "length (findDateConflicts d3) = length (findDateConflicts d2)"
    using arg_cong [OF targets_date [OF s3], of length] by simp
  have r1: "validatePendingInspections d3 =
      (\<lparr>name = ''Pending Inspections'', flagsCreated = 0,
        flagsSkipped = length (findLotsWithoutQuality d3), validation_errors = []\<rparr>, d3)"
    unfolding validatePendingInspections_def
    using runRule_settled [of "map l_id (findLotsWithoutQuality d3)" "''Pending Inspection''"
        "no_updates\<lparr>set_is_pending_inspection := Some True\<rparr>" d3] p3
    by (simp add: targets_pending [OF s03] l1)
  have r2: "validateOrphanedShipments d3 =
      (\<lparr>name = ''Orphaned Shipments'', flagsCreated = 0,
        flagsSkipped = length (findOrphanedShipments d3), validation_errors = []\<rparr>, d3)"
    unfolding validateOrphanedShipments_def
    using runRule_settled [of "map (\<lambda>shipment. s_lot_id (fst shipment)) (findOrphanedShipments d3)"
        "''Orphaned Shipment''" "no_updates\<lparr>set_has_data_integrity_issue := Some True\<rparr>" d3] o3
    by (simp add: targets_orphaned [OF s13] l2)
  have r3: "validateDateLogic d3 =
      (\<lparr>name = ''Date Logic Validation'', flagsCreated = 0,
        flagsSkipped = length (findDateConflicts d3), validation_errors = []\<rparr>, d3)"
    unfolding validateDateLogic_def
    using runRule_settled [of "map (\<lambda>conflict. l_id (fst conflict)) (findDateConflicts d3)"
        "''Date Conflict''" "no_updates\<lparr>set_has_date_conflict := Some True\<rparr>" d3] c3
    by (simp add: targets_date [OF s3] l3)
  show ?thesis
    by (simp add: runAllValidations_def r1 r2 r3)
qed

text \<open>
  Claim C4. Running the rule engine on the state a run of the engine has left creates no
  flag in any of the three rules, raises no error and leaves the state as it is: what it
  writes to the lots is what they already hold.
\<close>

theorem C4_second_run_creates_no_flag:
  "map flagsCreated (fst (runAllValidations (snd (runAllValidations d)))) = [0, 0, 0]
   \<and> map validation_errors (fst (runAllValidations (snd (runAllValidations d)))) = [[], [], []]
   \<and> snd (runAllValidations (snd (runAllValidations d))) = snd (runAllValidations d)"
  by (simp add: second_pass_changes_nothing)

text \<open>On the example the first run creates three flags and the second none.\<close>

theorem C4_second_run_creates_no_flag_witness:
  "map flagsCreated (fst (runAllValidations shipped_early_db)) = [2, 1, 0]
   \<and> map flagsCreated (fst (runAllValidations (snd (runAllValidations shipped_early_db))))
       = [0, 0, 0]
   \<and> snd (runAllValidations (snd (runAllValidations shipped_early_db)))
       = snd (runAllValidations shipped_early_db)"
proof -
  have "map flagsCreated (fst (runAllValidations shipped_early_db)) = [2, 1, 0]"
    by code_simp
  then show ?thesis
    using C4_second_run_creates_no_flag [of shipped_early_db] by simp
qed

end
